theory Spec2Isabelle
  imports Complex_Main "HOL-Library.AList" "HOL-Library.Word"
begin

section \<open>Python dictionaries\<close>

text \<open>
  A Python \<^verbatim>\<open>dict\<close> keeps its keys unique and in insertion order: assigning to a key
  that is present replaces the value in place, assigning to a new key appends it.
  That is \<^const>\<open>AList.update\<close> on an association list.  Floats are modelled as reals.
\<close>

type_synonym ('k, 'v) dict = "('k \<times> 'v) list"

definition dict_get :: "('k, 'v) dict \<Rightarrow> 'k \<Rightarrow> 'v \<Rightarrow> 'v" where
  "dict_get d k dflt = (case map_of d k of None \<Rightarrow> dflt | Some v \<Rightarrow> v)"

definition dict_set :: "('k, 'v) dict \<Rightarrow> 'k \<Rightarrow> 'v \<Rightarrow> ('k, 'v) dict" where
  "dict_set d k v = AList.update k v d"

definition dict_update :: "('k, 'v) dict \<Rightarrow> ('k, 'v) dict \<Rightarrow> ('k, 'v) dict" where
  "dict_update d e = foldl (\<lambda>acc (k, v). dict_set acc k v) d e"

definition dict_pop :: "('k, 'v) dict \<Rightarrow> 'k \<Rightarrow> ('k, 'v) dict" where
  "dict_pop d k = AList.delete k d"


definition dict_keys :: "('k, 'v) dict \<Rightarrow> 'k list" where
  "dict_keys d = map fst d"

section \<open>Weight tables (weights.py, rng.py)\<close>




section \<open>Errors and the library interface\<close>

text \<open>
  Every exception the modelled code can raise is a value.  \<open>ValidationError\<close> carries the
  names of the fields that fail the record schema.
\<close>

datatype error =
  OverflowError | ValueError | IndexError | KeyError | ValidationError "string list"

text \<open>
  A RandomKey is what the callers pass to \<^verbatim>\<open>seed_for\<close>: raw bytes, or a tuple of
  strings, integers and booleans.
\<close>

datatype prim = PStr string | PInt int | PBool bool

datatype rkey = KBytes "8 word list" | KTuple "prim list"

text \<open>
  The code draws all its randomness from numpy generators and hashes keys with BLAKE2b;
  neither is code of this repository.  They are taken as a parameter: a record of the
  library operations the code calls, over an arbitrary type \<open>'g\<close> of generator states.
  Each draw returns the value drawn and the generator's next state.
  \<^item> \<open>blake2b_8\<close>: the 8-byte BLAKE2b digest read as a big-endian integer;
  \<^item> \<open>repr_utf8\<close>: \<^verbatim>\<open>repr(key).encode("utf-8")\<close> of a tuple;
  \<^item> \<open>isoformat\<close>: \<^verbatim>\<open>date.isoformat()\<close> of a date given by its ordinal;
  \<^item> \<open>default_rng\<close>: \<^verbatim>\<open>np.random.default_rng(seed)\<close> for a seed \<open>\<ge> 0\<close>;
  \<^item> \<open>gen_random\<close>, \<open>gen_normal\<close>: \<^verbatim>\<open>r.random()\<close>, \<^verbatim>\<open>r.normal(loc, scale)\<close>;
  \<^item> \<open>gen_choice\<close>: the index drawn by \<^verbatim>\<open>r.choice(n, p=probs)\<close>;
  \<^item> \<open>gen_choice_distinct\<close>: \<^verbatim>\<open>r.choice(n, size=k, replace=False)\<close>;
  \<^item> \<open>gen_integers\<close>, \<open>gen_integers_sized\<close>: \<^verbatim>\<open>r.integers(lo, hi)\<close> and
    \<^verbatim>\<open>r.integers(lo, hi, size=n)\<close>;
  \<^item> \<open>gen_multinomial\<close>: the counts drawn by \<^verbatim>\<open>r.multinomial(n, pvals)\<close> once numpy
    has accepted \<open>pvals\<close>.
\<close>

record 'g library =
  blake2b_8 :: "8 word list \<Rightarrow> 64 word"
  repr_utf8 :: "prim list \<Rightarrow> 8 word list"
  isoformat :: "int \<Rightarrow> string"
  default_rng :: "nat \<Rightarrow> 'g"
  gen_random :: "'g \<Rightarrow> real \<times> 'g"
  gen_normal :: "'g \<Rightarrow> real \<Rightarrow> real \<Rightarrow> real \<times> 'g"
  gen_choice :: "'g \<Rightarrow> nat \<Rightarrow> real list \<Rightarrow> nat \<times> 'g"
  gen_choice_distinct :: "'g \<Rightarrow> nat \<Rightarrow> nat \<Rightarrow> nat list \<times> 'g"
  gen_integers :: "'g \<Rightarrow> int \<Rightarrow> int \<Rightarrow> int \<times> 'g"
  gen_integers_sized :: "'g \<Rightarrow> int \<Rightarrow> int \<Rightarrow> nat \<Rightarrow> int list \<times> 'g"
  gen_multinomial :: "'g \<Rightarrow> nat \<Rightarrow> real list \<Rightarrow> nat list \<times> 'g"


definition integers_contract :: "'g library \<Rightarrow> bool" where
  "integers_contract L \<longleftrightarrow>
     (\<forall>g lo hi. lo < hi \<longrightarrow> lo \<le> fst (gen_integers L g lo hi) \<and> fst (gen_integers L g lo hi) < hi)
   \<and> (\<forall>g lo hi n. lo < hi \<longrightarrow>
        length (fst (gen_integers_sized L g lo hi n)) = n
      \<and> (\<forall>d \<in> set (fst (gen_integers_sized L g lo hi n)). lo \<le> d \<and> d < hi))"

text \<open>
  A degenerate library for evaluating the model at concrete inputs: the generator state is
  a counter, every draw returns the smallest outcome numpy admits (index 0, the lower
  bound, the location of the normal, all of \<open>n\<close> in the first bin).
\<close>

definition first_outcome_library :: "nat library" where
  "first_outcome_library =
     \<lparr> blake2b_8 = (\<lambda>bs. word_of_nat (length bs)),
       repr_utf8 = (\<lambda>ps. replicate (length ps) 0),
       isoformat = (\<lambda>d. ''d''),
       default_rng = (\<lambda>seed. seed),
       gen_random = (\<lambda>g. (0, Suc g)),
       gen_normal = (\<lambda>g loc scale. (loc, Suc g)),
       gen_choice = (\<lambda>g n p. (0, Suc g)),
       gen_choice_distinct = (\<lambda>g n k. ([0..<k], Suc g)),
       gen_integers = (\<lambda>g lo hi. (lo, Suc g)),
       gen_integers_sized = (\<lambda>g lo hi n. (replicate n lo, Suc g)),
       gen_multinomial = (\<lambda>g n pvals. (n # replicate (length pvals - 1) 0, Suc g)) \<rparr>"

section \<open>DeterministicRNG (rng.py)\<close>

record 'g DeterministicRNG =
  global_seed :: int
  root :: 'g

text \<open>\<^verbatim>\<open>__init__\<close>: numpy refuses a negative seed.\<close>

definition DeterministicRNG_init :: "'g library \<Rightarrow> int \<Rightarrow> error + 'g DeterministicRNG" where
  "DeterministicRNG_init L seed =
     (if seed < 0 then Inl ValueError
      else Inr \<lparr> global_seed = seed, root = default_rng L (nat seed) \<rparr>)"

text \<open>
  \<^verbatim>\<open>int.to_bytes(8, "big", signed=False)\<close>: eight bytes, most significant first;
  OverflowError for a negative integer or one that needs more than eight bytes.
\<close>

definition to_bytes8 :: "int \<Rightarrow> error + 8 word list" where
  "to_bytes8 n =
     (if n < 0 \<or> 2 ^ 64 \<le> n then Inl OverflowError
      else Inr (map (\<lambda>i. word_of_int (n div 256 ^ (7 - i))) [0..<8]))"

definition hash_to_uint64 :: "'g library \<Rightarrow> 8 word list \<Rightarrow> nat" where
  "hash_to_uint64 L data = unat (blake2b_8 L data)"

definition seed_for :: "'g library \<Rightarrow> 'g DeterministicRNG \<Rightarrow> rkey \<Rightarrow> error + 'g" where
  "seed_for L self key =
     (let data = (case key of KBytes bs \<Rightarrow> bs | KTuple ps \<Rightarrow> repr_utf8 L ps) in
      case to_bytes8 (global_seed self) of
        Inl e \<Rightarrow> Inl e
      | Inr seed_bytes \<Rightarrow> Inr (default_rng L (hash_to_uint64 L (seed_bytes @ data))))"

text \<open>
  \<^verbatim>\<open>choice_weighted\<close> with its optional generator: without one the draw comes from the
  shared root generator, which advances.  The index is the one numpy drew; numpy only
  draws indices below \<open>len(items)\<close>.
\<close>

definition choice_weighted ::
  "'g library \<Rightarrow> 'g DeterministicRNG \<Rightarrow> string list \<Rightarrow> real list \<Rightarrow> 'g option
     \<Rightarrow> error + (string \<times> 'g DeterministicRNG)" where
  "choice_weighted L self items weights rng =
     (let r = (case rng of None \<Rightarrow> root self | Some g \<Rightarrow> g);
          (idx, r') = gen_choice L r (length items) weights;
          self' = (case rng of None \<Rightarrow> self\<lparr>root := r'\<rparr> | Some g \<Rightarrow> self)
      in if idx < length items then Inr (items ! idx, self') else Inl IndexError)"

text \<open>The first \<open>n\<close> uniform draws of a generator.\<close>

fun draws :: "'g library \<Rightarrow> nat \<Rightarrow> 'g \<Rightarrow> real list" where
  "draws L 0 g = []"
| "draws L (Suc n) g = (case gen_random L g of (x, g') \<Rightarrow> x # draws L n g')"

text \<open>
  What can happen to a \<^verbatim>\<open>DeterministicRNG\<close> between two derivations: another derivation,
  or a weighted choice (from the root generator or from a supplied one).
\<close>

datatype 'g rng_call = SeedFor rkey | ChoiceWeighted "string list" "real list" "'g option"

definition rng_step :: "'g library \<Rightarrow> 'g DeterministicRNG \<Rightarrow> 'g rng_call \<Rightarrow> 'g DeterministicRNG" where
  "rng_step L self c =
     (case c of
        SeedFor key \<Rightarrow> self
      | ChoiceWeighted items weights rng \<Rightarrow>
          (case choice_weighted L self items weights rng of
             Inl e \<Rightarrow> self\<lparr>root := snd (gen_choice L (root self) (length items) weights)\<rparr>
           | Inr (x, self') \<Rightarrow> self'))"



section \<open>Configuration (config.py)\<close>

text \<open>
  \<^verbatim>\<open>get(cfg, path, default)\<close> walks a dotted path and returns the default when a segment
  is missing.  The configuration is modelled by what \<^verbatim>\<open>get\<close> finds at each path, typed
  the way the caller converts it (a weight table, a float, an int).
\<close>

record EffectiveConfig =
  cfg_tables :: "string \<Rightarrow> (string, real) dict option"
  cfg_int_tables :: "string \<Rightarrow> (int, real) dict option"
  cfg_reals :: "string \<Rightarrow> real option"
  cfg_ints :: "string \<Rightarrow> int option"
  cfg_strings :: "string \<Rightarrow> string list option"

definition get_table :: "EffectiveConfig \<Rightarrow> string \<Rightarrow> (string, real) dict \<Rightarrow> (string, real) dict" where
  "get_table cfg path dflt = (case cfg_tables cfg path of None \<Rightarrow> dflt | Some t \<Rightarrow> t)"

definition get_int_table :: "EffectiveConfig \<Rightarrow> string \<Rightarrow> (int, real) dict \<Rightarrow> (int, real) dict" where
  "get_int_table cfg path dflt = (case cfg_int_tables cfg path of None \<Rightarrow> dflt | Some t \<Rightarrow> t)"

definition get_real :: "EffectiveConfig \<Rightarrow> string \<Rightarrow> real \<Rightarrow> real" where
  "get_real cfg path dflt = (case cfg_reals cfg path of None \<Rightarrow> dflt | Some v \<Rightarrow> v)"

definition get_int :: "EffectiveConfig \<Rightarrow> string \<Rightarrow> int \<Rightarrow> int" where
  "get_int cfg path dflt = (case cfg_ints cfg path of None \<Rightarrow> dflt | Some v \<Rightarrow> v)"

definition get_strings :: "EffectiveConfig \<Rightarrow> string \<Rightarrow> string list \<Rightarrow> string list" where
  "get_strings cfg path dflt = (case cfg_strings cfg path of None \<Rightarrow> dflt | Some v \<Rightarrow> v)"

section \<open>Volume splits (volume.py)\<close>












section \<open>Calendar and incidents (calendar.py)\<close>

text \<open>
  A \<^verbatim>\<open>date\<close> is modelled by its proleptic Gregorian ordinal (1 is 0001-01-01, a Monday;
  \<^verbatim>\<open>date.max\<close> is 9999-12-31, ordinal 3652059).  Adding a \<^verbatim>\<open>timedelta\<close> that leaves
  this range raises OverflowError.
\<close>

definition date_max :: int where
  "date_max = 3652059"

definition date_add :: "int \<Rightarrow> int \<Rightarrow> error + int" where
  "date_add d k = (if d + k < 1 \<or> date_max < d + k then Inl OverflowError else Inr (d + k))"

definition date_weekday :: "int \<Rightarrow> nat" where
  "date_weekday d = nat ((d + 6) mod 7)"

definition WEEKDAYS :: "string list" where
  "WEEKDAYS = [''Mon'', ''Tue'', ''Wed'', ''Thu'', ''Fri'', ''Sat'', ''Sun'']"

record DayPlan =
  date :: int
  weekday :: string
  is_weekend :: bool
  weekday_factor :: real
  outage_flag :: bool
  app_issue_flag :: bool
  premium_wait_peak :: bool

text \<open>
  \<^verbatim>\<open>daterange\<close> yields \<open>d\<close> and then steps to the next day before testing it against the
  end, so the step after \<^verbatim>\<open>date.max\<close> raises.
\<close>

function daterange :: "int \<Rightarrow> int \<Rightarrow> error + int list" where
  "daterange d end_date =
     (if d \<le> end_date then
        (if date_max < d + 1 then Inl OverflowError
         else (case daterange (d + 1) end_date of
                 Inl e \<Rightarrow> Inl e
               | Inr ds \<Rightarrow> Inr (d # ds)))
      else Inr [])"
  by pat_completeness auto
termination
  by (relation "measure (\<lambda>(d, end_date). nat (end_date + 1 - d))") auto

declare daterange.simps [simp del]

definition select_outage_days ::
  "'g library \<Rightarrow> int \<Rightarrow> int \<Rightarrow> int \<Rightarrow> 'g DeterministicRNG \<Rightarrow> error + int list" where
  "select_outage_days L start end_date outages rng =
     (case daterange start end_date of
        Inl e \<Rightarrow> Inl e
      | Inr ds \<Rightarrow>
          (let weekdays = filter (\<lambda>d. date_weekday d < 5) ds in
           case seed_for L rng
                  (KTuple [PStr ''outages'', PStr (isoformat L start), PStr (isoformat L end_date)]) of
             Inl e \<Rightarrow> Inl e
           | Inr r \<Rightarrow>
               if outages \<le> 0 \<or> weekdays = [] then Inr []
               else
                 (let outages' = min outages (int (length weekdays));
                      idxs = fst (gen_choice_distinct L r (length weekdays) (nat outages'))
                  in if list_all (\<lambda>i. i < length weekdays) idxs
                     then Inr (map (\<lambda>i. weekdays ! i) idxs)
                     else Inl IndexError)))"

text \<open>
  The two loops of \<^verbatim>\<open>make_calendar\<close> that fill \<^verbatim>\<open>app_issue_days\<close>: for each outage day
  \<open>d\<close> and each \<open>k\<close> in \<^verbatim>\<open>range(1, app_after_days + 1)\<close>, the day \<open>d + k\<close> is added when it
  is not after the end date.
\<close>

fun add_issue_days_after :: "int \<Rightarrow> int \<Rightarrow> int list \<Rightarrow> int list \<Rightarrow> error + int list" where
  "add_issue_days_after d end_date [] app_issue_days = Inr app_issue_days"
| "add_issue_days_after d end_date (k # ks) app_issue_days =
     (case date_add d k of
        Inl e \<Rightarrow> Inl e
      | Inr nd \<Rightarrow>
          add_issue_days_after d end_date ks
            (if nd \<le> end_date then List.insert nd app_issue_days else app_issue_days))"

fun add_issue_days :: "int list \<Rightarrow> int \<Rightarrow> int \<Rightarrow> int list \<Rightarrow> error + int list" where
  "add_issue_days [] end_date app_after_days app_issue_days = Inr app_issue_days"
| "add_issue_days (d # ds) end_date app_after_days app_issue_days =
     (case add_issue_days_after d end_date [1..app_after_days] app_issue_days of
        Inl e \<Rightarrow> Inl e
      | Inr app_issue_days' \<Rightarrow> add_issue_days ds end_date app_after_days app_issue_days')"

definition make_day ::
  "(string, real) dict \<Rightarrow> string list \<Rightarrow> int list \<Rightarrow> int list \<Rightarrow> int \<Rightarrow> DayPlan" where
  "make_day wd_factors premium_peak_days outage_days app_issue_days d =
     (let wd_idx = date_weekday d;
          wd = WEEKDAYS ! wd_idx
      in \<lparr> date = d,
           weekday = wd,
           is_weekend = (wd_idx \<ge> 5),
           weekday_factor = dict_get wd_factors wd 1,
           outage_flag = (d \<in> set outage_days),
           app_issue_flag = (d \<in> set app_issue_days),
           premium_wait_peak = (wd \<in> set premium_peak_days) \<rparr>)"

definition make_calendar ::
  "'g library \<Rightarrow> int \<Rightarrow> int \<Rightarrow> EffectiveConfig \<Rightarrow> 'g DeterministicRNG \<Rightarrow> error + DayPlan list" where
  "make_calendar L start_date end_date cfg rng =
     (let wd_factors = get_table cfg ''calendar.weekday_factors'' [];
          outages_count = get_int cfg ''calendar.incidents.outages_count'' 0;
          app_after_days = get_int cfg ''calendar.incidents.app_issue_after_outage_days'' 0;
          premium_peak_days = get_strings cfg ''calendar.incidents.premium_wait_peak_days'' []
      in case select_outage_days L start_date end_date outages_count rng of
           Inl e \<Rightarrow> Inl e
         | Inr outage_days \<Rightarrow>
             (case add_issue_days outage_days end_date app_after_days [] of
                Inl e \<Rightarrow> Inl e
              | Inr app_issue_days \<Rightarrow>
                  (case daterange start_date end_date of
                     Inl e \<Rightarrow> Inl e
                   | Inr ds \<Rightarrow>
                       Inr (map (make_day wd_factors premium_peak_days outage_days app_issue_days) ds))))"

text \<open>A configuration with one outage and app issues on the two days after it.\<close>

definition example_calendar_config :: EffectiveConfig where
  "example_calendar_config =
     \<lparr> cfg_tables = (\<lambda>p. None), cfg_int_tables = (\<lambda>p. None), cfg_reals = (\<lambda>p. None),
       cfg_ints = [''calendar.incidents.outages_count'' \<mapsto> 1,
                   ''calendar.incidents.app_issue_after_outage_days'' \<mapsto> 2],
       cfg_strings = (\<lambda>p. None) \<rparr>"

section \<open>Feature sampling (features.py)\<close>

definition ebind :: "error + 'a \<Rightarrow> ('a \<Rightarrow> error + 'b) \<Rightarrow> error + 'b" where
  "ebind m f = (case m of Inl e \<Rightarrow> Inl e | Inr x \<Rightarrow> f x)"

text \<open>
  numpy's argument checks for the draws the samplers make: \<^verbatim>\<open>normal\<close> refuses a negative
  scale; \<^verbatim>\<open>choice(a, p=p)\<close> refuses an empty population, a probability vector of
  another length, a negative probability and probabilities that do not sum to 1 (up to
  \<open>sqrt(eps)\<close>, about \<open>1.49e-8\<close>).
\<close>

definition np_normal :: "'g library \<Rightarrow> 'g \<Rightarrow> real \<Rightarrow> real \<Rightarrow> error + (real \<times> 'g)" where
  "np_normal L r loc scale = (if scale < 0 then Inl ValueError else Inr (gen_normal L r loc scale))"

definition choice_atol :: real where
  "choice_atol = 14901161193847656 / 10 ^ 24"

definition np_choice :: "'g library \<Rightarrow> 'g \<Rightarrow> 'a list \<Rightarrow> real list \<Rightarrow> error + ('a \<times> 'g)" where
  "np_choice L r a p =
     (if a = [] \<or> length p \<noteq> length a \<or> (\<exists>x \<in> set p. x < 0)
         \<or> choice_atol < \<bar>sum_list p - 1\<bar>
      then Inl ValueError
      else (case gen_choice L r (length a) p of
              (idx, r') \<Rightarrow> if idx < length a then Inr (a ! idx, r') else Inl IndexError))"

text \<open>
  Python's \<^verbatim>\<open>round\<close> rounds halves to the even neighbour; \<^verbatim>\<open>round(x, nd)\<close> does so at
  the \<open>nd\<close>-th decimal.
\<close>

definition round_half_even :: "real \<Rightarrow> int" where
  "round_half_even x =
     (let f = \<lfloor>x\<rfloor>; d = x - of_int f
      in if d < 1 / 2 then f else if 1 / 2 < d then f + 1 else if even f then f else f + 1)"

definition py_round :: "real \<Rightarrow> nat \<Rightarrow> real" where
  "py_round x nd = of_int (round_half_even (x * 10 ^ nd)) / 10 ^ nd"

record 'g Context =
  ctx_date :: int
  ctx_weekday :: string
  ctx_time_of_day_bucket :: string
  ctx_agent_name :: string
  ctx_team :: string
  ctx_agent_shift :: string
  ctx_customer_segment :: string
  ctx_channel :: string
  ctx_region :: string
  ctx_language :: string
  ctx_device_type :: string
  ctx_outage_flag :: bool
  ctx_app_issue_flag :: bool
  ctx_premium_wait_peak :: bool
  call_rng :: 'g
  hour_lt_18 :: bool

definition trunc_normal :: "'g library \<Rightarrow> 'g \<Rightarrow> real \<Rightarrow> real \<Rightarrow> real \<Rightarrow> error + (real \<times> 'g)" where
  "trunc_normal L r mean sigma min_v =
     ebind (np_normal L r mean sigma) (\<lambda>(v, r'). Inr (max min_v v, r'))"

text \<open>
  \<^verbatim>\<open>vals = np.clip(vals, 0.0, None); vals = vals / (vals.sum() if vals.sum() > 0 else len(vals))\<close>
\<close>

definition clip_normalise :: "real list \<Rightarrow> real list" where
  "clip_normalise vals0 =
     (let vals = map (\<lambda>v. max 0 v) vals0
      in map (\<lambda>v. v / (if sum_list vals > 0 then sum_list vals else real (length vals))) vals)"

record ops_metrics =
  AWT :: real
  Hold_time :: real
  Transfers_count :: int
  Silence_ratio :: real
  Interruptions_count :: int
  FCR :: bool

text \<open>The parts of \<^verbatim>\<open>sample_ops_metrics\<close> that draw nothing.\<close>

definition awt_with_deltas :: "'g Context \<Rightarrow> EffectiveConfig \<Rightarrow> real \<Rightarrow> real" where
  "awt_with_deltas ctx cfg awt0 =
     (let awt1 = (if ctx_outage_flag ctx
                  then awt0 + get_real cfg ''ops.awt_seconds.outage_delta'' 0 else awt0);
          awt2 = awt1 + get_real cfg (''ops.awt_seconds.channel_deltas.'' @ ctx_channel ctx) 0;
          awt3 = awt2 + get_real cfg (''ops.awt_seconds.team_deltas.'' @ ctx_team ctx) 0
      in if ctx_premium_wait_peak ctx
         then awt3 + get_real cfg ''ops.awt_seconds.premium_wait_peak_delta'' 0 else awt3)"

definition transfer_probs :: "'g Context \<Rightarrow> EffectiveConfig \<Rightarrow> (int, real) dict" where
  "transfer_probs ctx cfg =
     get_int_table cfg (''ops.transfers_count.channel_overrides.'' @ ctx_channel ctx)
       (get_int_table cfg ''ops.transfers_count.base_probs''
          [(0, 7 / 10), (1, 2 / 10), (2, 8 / 100), (3, 2 / 100)])"

definition fcr_probability :: "'g Context \<Rightarrow> EffectiveConfig \<Rightarrow> real" where
  "fcr_probability ctx cfg =
     (let fcr_prob0 = get_real cfg ''ops.fcr_base_prob'' (78 / 100);
          fcr_prob1 = (if ctx_outage_flag ctx
                       then fcr_prob0 + get_real cfg ''ops.fcr_penalties.outage'' (- (15 / 100))
                       else fcr_prob0);
          fcr_prob2 = fcr_prob1 + get_real cfg (''ops.fcr_penalties.channel.'' @ ctx_channel ctx) 0
      in fcr_prob2 + get_real cfg (''ops.fcr_penalties.team.'' @ ctx_team ctx) 0)"

text \<open>
  \<^verbatim>\<open>sample_ops_metrics\<close>: six draws from the call's own generator, in the order waiting
  time, hold time, transfers, silence ratio, interruptions, first-contact resolution.
\<close>

definition sample_ops_metrics ::
  "'g library \<Rightarrow> 'g Context \<Rightarrow> EffectiveConfig \<Rightarrow> error + (ops_metrics \<times> 'g Context)" where
  "sample_ops_metrics L ctx cfg =
     ebind (trunc_normal L (call_rng ctx) (get_real cfg ''ops.awt_seconds.base_median'' 90)
              (get_real cfg ''ops.awt_seconds.base_sigma'' 25) 0) (\<lambda>(awt0, r1).
     ebind (trunc_normal L r1 (get_real cfg ''ops.hold_seconds.base_median'' 45)
              (get_real cfg ''ops.hold_seconds.base_sigma'' 20) 0) (\<lambda>(hold0, r2).
     ebind (np_choice L r2 (dict_keys (transfer_probs ctx cfg))
              (clip_normalise (map (\<lambda>k. dict_get (transfer_probs ctx cfg) k 0)
                 (dict_keys (transfer_probs ctx cfg))))) (\<lambda>(transfers, r3).
     ebind (trunc_normal L r3
              (get_real cfg ''ops.silence_ratio.mean'' 9
                 + get_real cfg (''ops.silence_ratio.channel_deltas.'' @ ctx_channel ctx) 0)
              (get_real cfg ''ops.silence_ratio.sigma'' 4) 0) (\<lambda>(sil, r4).
     ebind (trunc_normal L r4
              (get_real cfg ''ops.interruptions_count.mean'' (12 / 10)
                 + get_real cfg (''ops.interruptions_count.channel_deltas.'' @ ctx_channel ctx) 0)
              (get_real cfg ''ops.interruptions_count.sigma'' (8 / 10)) 0) (\<lambda>(intr, r5).
     (case gen_random L r5 of (u, r6) \<Rightarrow>
        Inr (\<lparr> AWT = py_round (awt_with_deltas ctx cfg awt0) 2,
               Hold_time = py_round
                 (hold0 + get_real cfg (''ops.hold_seconds.channel_deltas.'' @ ctx_channel ctx) 0) 2,
               Transfers_count = transfers,
               Silence_ratio = py_round sil 2,
               Interruptions_count = round_half_even intr,
               FCR = (u < max 0 (min 1 (fcr_probability ctx cfg))) \<rparr>,
             ctx\<lparr>call_rng := r6\<rparr>)))))))"

record nps_result =
  NPS_score :: int
  sentiment_score :: real

definition nps_base_weights :: "EffectiveConfig \<Rightarrow> (int, real) dict" where
  "nps_base_weights cfg =
     get_int_table cfg ''nps.base_weights''
       [(6, 15 / 100), (7, 2 / 10), (8, 25 / 100), (9, 25 / 100), (10, 15 / 100)]"

text \<open>The corrected and clamped score, and the sentiment before rounding.\<close>

definition corrected_score :: "'g Context \<Rightarrow> bool \<Rightarrow> real \<Rightarrow> EffectiveConfig \<Rightarrow> int \<Rightarrow> int" where
  "corrected_score ctx fcr awt cfg score0 =
     (let corr0 = 0;
          corr1 = (if awt > 120 then corr0 + get_int cfg ''nps.corrections.awt_gt_120'' (- 2) else corr0);
          corr2 = (if \<not> fcr then corr1 + get_int cfg ''nps.corrections.fcr_zero'' (- 1) else corr1);
          corr = (if ctx_premium_wait_peak ctx
                  then corr2 + get_int cfg ''nps.corrections.premium_waittime'' (- 2) else corr2)
      in max 0 (min (get_int cfg ''nps.corrections.happy_cap'' 10) (score0 + corr)))"

definition sentiment_of :: "int \<Rightarrow> real \<Rightarrow> real" where
  "sentiment_of score noise = max (- 1) (min 1 ((of_int score - 5) / 5 + noise))"

definition sample_nps ::
  "'g library \<Rightarrow> 'g Context \<Rightarrow> bool \<Rightarrow> real \<Rightarrow> EffectiveConfig \<Rightarrow> error + (nps_result \<times> 'g Context)" where
  "sample_nps L ctx fcr awt cfg =
     ebind (np_choice L (call_rng ctx) (dict_keys (nps_base_weights cfg))
              (clip_normalise (map (\<lambda>k. dict_get (nps_base_weights cfg) k 0)
                 (dict_keys (nps_base_weights cfg))))) (\<lambda>(score0, r1).
     ebind (np_normal L r1 0 (1 / 10)) (\<lambda>(noise, r2).
       Inr (\<lparr> NPS_score = corrected_score ctx fcr awt cfg score0,
              sentiment_score = py_round (sentiment_of (corrected_score ctx fcr awt cfg score0) noise) 3 \<rparr>,
            ctx\<lparr>call_rng := r2\<rparr>)))"

record compliance_result =
  compliance_flags :: "(string, string) dict"
  kb_article_used :: bool
  language_switch :: bool
  pii_disclosure_flag :: bool
  script_adherence :: real

text \<open>The dict comprehension that draws one pass/fail flag per pass rate, in order.\<close>

fun draw_flags :: "'g library \<Rightarrow> 'g \<Rightarrow> (string, real) dict \<Rightarrow> (string, string) dict \<times> 'g" where
  "draw_flags L r [] = ([], r)"
| "draw_flags L r ((k, v) # passes) =
     (case gen_random L r of (u, r') \<Rightarrow>
        (case draw_flags L r' passes of (flags, r'') \<Rightarrow>
           ((k, if u < max 0 (min 1 v) then ''pass'' else ''fail'') # flags, r'')))"

text \<open>The pass rates after the global, channel and team deltas, the outage penalty and the bonus.\<close>

definition adjusted_pass_rates :: "'g Context \<Rightarrow> EffectiveConfig \<Rightarrow> (string, real) dict" where
  "adjusted_pass_rates ctx cfg =
     (let passes0 = get_table cfg ''compliance.pass_rates'' [];
          global_delta = get_real cfg ''compliance.global_delta'' 0;
          chan_d = get_real cfg (''compliance.channel_deltas.'' @ ctx_channel ctx) 0;
          team_d = get_real cfg (''compliance.team_deltas.'' @ ctx_team ctx) 0;
          passes1 = map (\<lambda>(k, v). (k, max 0 (min (999 / 1000) (v + global_delta + chan_d + team_d))))
                      passes0;
          passes2 = (if ctx_outage_flag ctx
                     then dict_set passes1 ''Empathy''
                            (max 0 (dict_get passes1 ''Empathy'' (9 / 10)
                               + get_real cfg ''compliance.outage_empathy_penalty'' (- (8 / 100))))
                     else passes1)
      in if ctx_agent_name ctx = ''Monika_Mueller''
         then map (\<lambda>(k, v). (k, min (999 / 1000)
                     (v + get_real cfg ''compliance.monika_pass_bonus'' (5 / 100)))) passes2
         else passes2)"

definition sample_compliance ::
  "'g library \<Rightarrow> 'g Context \<Rightarrow> EffectiveConfig \<Rightarrow> error + (compliance_result \<times> 'g Context)" where
  "sample_compliance L ctx cfg =
     (case draw_flags L (call_rng ctx) (adjusted_pass_rates ctx cfg) of (flags, r1) \<Rightarrow>
      ebind (np_normal L r1 (get_real cfg ''compliance.script_adherence_mean'' 86)
               (get_real cfg ''compliance.script_adherence_sigma'' 6)) (\<lambda>(z, r2).
        (case gen_random L r2 of (u1, r3) \<Rightarrow>
        (case gen_random L r3 of (u2, r4) \<Rightarrow>
        (case gen_random L r4 of (u3, r5) \<Rightarrow>
           Inr (\<lparr> compliance_flags = flags,
                  kb_article_used = (u1 < 1 / 2),
                  language_switch = (u2 < 5 / 100),
                  pii_disclosure_flag = (u3 < 2 / 100),
                  script_adherence = py_round (max 0 (min 100 z)) 1 \<rparr>,
                ctx\<lparr>call_rng := r5\<rparr>))))))"

text \<open>A configuration that raises the satisfaction cap to 20 and always draws the score 15.\<close>

definition high_cap_config :: EffectiveConfig where
  "high_cap_config =
     \<lparr> cfg_tables = (\<lambda>p. None),
       cfg_int_tables = [''nps.base_weights'' \<mapsto> [(15, 1)]],
       cfg_reals = (\<lambda>p. None),
       cfg_ints = [''nps.corrections.happy_cap'' \<mapsto> 20],
       cfg_strings = (\<lambda>p. None) \<rparr>"

definition example_context :: "string \<Rightarrow> nat Context" where
  "example_context ch =
     \<lparr> ctx_date = 738886, ctx_weekday = ''Mon'', ctx_time_of_day_bucket = ''Morning'',
       ctx_agent_name = ''Anna_Ziegler'', ctx_team = ''Team A'', ctx_agent_shift = ''Early'',
       ctx_customer_segment = ''Standard'', ctx_channel = ch, ctx_region = ''ZH'',
       ctx_language = ''DE'', ctx_device_type = ''iOS'', ctx_outage_flag = False,
       ctx_app_issue_flag = False, ctx_premium_wait_peak = False, call_rng = 0,
       hour_lt_18 = True \<rparr>"

text \<open>The configuration in which every path is missing, so that every default applies.\<close>

definition empty_config :: EffectiveConfig where
  "empty_config =
     \<lparr> cfg_tables = (\<lambda>p. None), cfg_int_tables = (\<lambda>p. None), cfg_reals = (\<lambda>p. None),
       cfg_ints = (\<lambda>p. None), cfg_strings = (\<lambda>p. None) \<rparr>"

section \<open>Weight normalization\<close>












section \<open>Derived generators\<close>

lemma to_bytes8_ok: "0 \<le> n \<Longrightarrow> n < 2 ^ 64 \<Longrightarrow> \<exists>bs. to_bytes8 n = Inr bs \<and> length bs = 8"
  by (simp add: to_bytes8_def)

lemma rng_step_global_seed: "global_seed (rng_step L self c) = global_seed self"
  by (cases c) (auto simp: rng_step_def choice_weighted_def Let_def split: sum.splits option.splits prod.splits if_splits)

lemma rng_steps_global_seed: "global_seed (foldl (rng_step L) self calls) = global_seed self"
  by (induction calls arbitrary: self) (simp_all add: rng_step_global_seed)

lemma seed_for_cong: "global_seed a = global_seed b \<Longrightarrow> seed_for L a key = seed_for L b key"
  by (simp add: seed_for_def)

text \<open>
  C1.  Deriving a generator is a function of the global seed and the key only: whatever
  calls were made on the \<^verbatim>\<open>DeterministicRNG\<close> in between (other derivations, draws from
  the root generator or from other generators), and whatever state \<open>g\<close> the root generator
  is in, \<^verbatim>\<open>seed_for\<close> gives the same result for the same key, so the first \<open>N\<close> draws of
  the two derived generators are the same list for every \<open>N\<close>.  A generator is returned
  exactly for seeds that fit in eight unsigned bytes; for any other seed both derivations
  raise the same OverflowError.
\<close>

theorem C1_seed_for_deterministic:
  "seed_for L (foldl (rng_step L) self calls) key = seed_for L self key
   \<and> map_sum id (draws L N) (seed_for L (foldl (rng_step L) self calls) key)
       = map_sum id (draws L N) (seed_for L self key)
   \<and> seed_for L (self\<lparr>root := g\<rparr>) key = seed_for L self key
   \<and> ((\<exists>r. seed_for L self key = Inr r) = (0 \<le> global_seed self \<and> global_seed self < 2 ^ 64))"
proof -
  have a: "seed_for L (foldl (rng_step L) self calls) key = seed_for L self key"
    by (rule seed_for_cong) (rule rng_steps_global_seed)
  have b: "seed_for L (self\<lparr>root := g\<rparr>) key = seed_for L self key"
    by (rule seed_for_cong) simp
  have c: "(\<exists>r. seed_for L self key = Inr r) = (0 \<le> global_seed self \<and> global_seed self < 2 ^ 64)"
    by (auto simp: seed_for_def to_bytes8_def Let_def split: sum.splits)
  show ?thesis using a b c by simp
qed

theorem C1_seed_for_deterministic_witness:
  "seed_for first_outcome_library
      (foldl (rng_step first_outcome_library) \<lparr> global_seed = 42, root = 0 \<rparr>
         [ChoiceWeighted [''x'', ''y''] [1 / 2, 1 / 2] None, SeedFor (KTuple [PStr ''day''])])
      (KTuple [PStr ''segment'', PInt 3])
    = Inr 10
   \<and> seed_for first_outcome_library \<lparr> global_seed = 42, root = 0 \<rparr>
        (KTuple [PStr ''segment'', PInt 3]) = Inr 10"
  using C1_seed_for_deterministic [of first_outcome_library "\<lparr> global_seed = 42, root = 0 \<rparr>"
      "[ChoiceWeighted [''x'', ''y''] [1 / 2, 1 / 2] None, SeedFor (KTuple [PStr ''day''])]"
      "KTuple [PStr ''segment'', PInt 3]" 0 0]
  by (simp add: seed_for_def to_bytes8_def hash_to_uint64_def first_outcome_library_def)

section \<open>Multinomial allocation\<close>











section \<open>Keys of the volume splits\<close>



section \<open>Incident propagation\<close>

lemma daterange_Inr: "daterange d e = Inr ds \<Longrightarrow> ds = [d..e]"
proof (induction d e arbitrary: ds rule: daterange.induct)
  case (1 d e)
  show ?case
  proof (cases "d \<le> e")
    case True
    with "1.prems" obtain ds' where ds': "daterange (d + 1) e = Inr ds'" "ds = d # ds'" "\<not> date_max < d + 1"
      by (subst (asm) daterange.simps) (auto split: if_splits sum.splits)
    then have "ds' = [d + 1..e]" using "1.IH" True by simp
    then show ?thesis using ds' True by (simp add: upto_rec1)
  next
    case False
    with "1.prems" show ?thesis by (subst (asm) daterange.simps) simp
  qed
qed

lemma daterange_total: "e < date_max \<or> e < d \<Longrightarrow> \<exists>ds. daterange d e = Inr ds"
proof (induction d e rule: daterange.induct)
  case (1 d e)
  show ?case
  proof (cases "d \<le> e")
    case True
    then have "\<not> date_max < d + 1" using "1.prems" by auto
    moreover then obtain ds where "daterange (d + 1) e = Inr ds" using "1.IH" "1.prems" True by auto
    ultimately show ?thesis using True by (subst daterange.simps) simp
  next
    case False
    then show ?thesis by (subst daterange.simps) simp
  qed
qed

lemma nth_in_range_subset:
  "\<forall>i \<in> set idxs. i < length w \<Longrightarrow> set (map (\<lambda>i. w ! i) idxs) \<subseteq> set w"
  by auto

lemma select_outage_days_range:
  assumes "select_outage_days L s e n rng = Inr od"
  shows "set od \<subseteq> {s..e}"
proof -
  from assms obtain ds where ds: "daterange s e = Inr ds"
    by (auto simp: select_outage_days_def split: sum.splits)
  then have dse: "ds = [s..e]" by (rule daterange_Inr)
  let ?w = "filter (\<lambda>d. date_weekday d < 5) ds"
  have "\<exists>idxs. (\<forall>i \<in> set idxs. i < length ?w) \<and> od = map (\<lambda>i. ?w ! i) idxs"
    using assms ds
    by (auto simp: select_outage_days_def Let_def list_all_iff split: sum.splits if_splits)
  then obtain idxs where idxs: "\<forall>i \<in> set idxs. i < length ?w" "od = map (\<lambda>i. ?w ! i) idxs"
    by blast
  have "set od \<subseteq> set ?w"
    unfolding idxs(2) using idxs(1) by (rule nth_in_range_subset)
  then show ?thesis using dse by auto
qed

lemma add_issue_days_after_set:
  "add_issue_days_after d e ks acc = Inr acc' \<Longrightarrow>
     set acc' = set acc \<union> {d + k | k. k \<in> set ks \<and> d + k \<le> e}"
proof (induction ks arbitrary: acc)
  case Nil
  then show ?case by simp
next
  case (Cons k ks)
  from Cons.prems obtain nd where nd: "date_add d k = Inr nd"
    and rest: "add_issue_days_after d e ks (if nd \<le> e then List.insert nd acc else acc) = Inr acc'"
    by (auto split: sum.splits)
  have ndk: "nd = d + k" using nd by (auto simp: date_add_def split: if_splits)
  show ?case using Cons.IH [OF rest] ndk by auto
qed

lemma add_issue_days_set:
  "add_issue_days ods e k acc = Inr acc' \<Longrightarrow>
     set acc' = set acc \<union> {d + j | d j. d \<in> set ods \<and> 1 \<le> j \<and> j \<le> k \<and> d + j \<le> e}"
proof (induction ods arbitrary: acc)
  case Nil
  then show ?case by simp
next
  case (Cons d ods)
  from Cons.prems obtain acc1 where a1: "add_issue_days_after d e [1..k] acc = Inr acc1"
    and rest: "add_issue_days ods e k acc1 = Inr acc'"
    by (auto split: sum.splits)
  have s1: "set acc1 = set acc \<union> {d + j | j. j \<in> set [1..k] \<and> d + j \<le> e}"
    by (rule add_issue_days_after_set [OF a1])
  show ?case using Cons.IH [OF rest] s1 by auto
qed

text \<open>
  C7.  Whenever \<^verbatim>\<open>make_calendar\<close> returns a calendar, it has one day plan per date of the
  range, in order, and a day has \<^verbatim>\<open>app_issue_flag\<close> set exactly when it lies between 1 and
  \<open>k\<close> days after some day of the calendar whose \<^verbatim>\<open>outage_flag\<close> is set, where \<open>k\<close> is the
  configured \<^verbatim>\<open>app_issue_after_outage_days\<close>: every day in such a window has the flag
  (from one outage or from several), and no day outside all windows has it.
\<close>

theorem C7_app_issue_propagation:
  assumes "make_calendar L start_date end_date cfg rng = Inr days"
  shows "map date days = [start_date..end_date]
       \<and> (\<forall>p \<in> set days.
            app_issue_flag p \<longleftrightarrow>
              (\<exists>q \<in> set days. outage_flag q
                 \<and> 1 \<le> date p - date q
                 \<and> date p - date q
                     \<le> get_int cfg ''calendar.incidents.app_issue_after_outage_days'' 0))"
proof -
  define k where "k = get_int cfg ''calendar.incidents.app_issue_after_outage_days'' 0"
  define wf where "wf = get_table cfg ''calendar.weekday_factors'' []"
  define pp where "pp = get_strings cfg ''calendar.incidents.premium_wait_peak_days'' []"
  from assms obtain od app ds where
    od: "select_outage_days L start_date end_date
           (get_int cfg ''calendar.incidents.outages_count'' 0) rng = Inr od"
    and app: "add_issue_days od end_date k [] = Inr app"
    and ds: "daterange start_date end_date = Inr ds"
    and days: "days = map (make_day wf pp od app) ds"
    unfolding make_calendar_def Let_def k_def wf_def pp_def
    by (auto split: sum.splits)
  have dse: "ds = [start_date..end_date]" using ds by (rule daterange_Inr)
  have odr: "set od \<subseteq> {start_date..end_date}" using od by (rule select_outage_days_range)
  have apps: "set app = {d + j | d j. d \<in> set od \<and> 1 \<le> j \<and> j \<le> k \<and> d + j \<le> end_date}"
    using add_issue_days_set [OF app] by simp
  have dates: "map date days = [start_date..end_date]"
    unfolding days dse by (simp add: make_day_def Let_def comp_def)
  have flags: "\<forall>p \<in> set days.
            app_issue_flag p \<longleftrightarrow>
              (\<exists>q \<in> set days. outage_flag q \<and> 1 \<le> date p - date q \<and> date p - date q \<le> k)"
  proof
    fix p assume "p \<in> set days"
    then obtain x where x: "x \<in> {start_date..end_date}" and p: "p = make_day wf pp od app x"
      unfolding days dse by auto
    have pd: "date p = x" "app_issue_flag p \<longleftrightarrow> x \<in> set app"
      by (simp_all add: p make_day_def Let_def)
    show "app_issue_flag p \<longleftrightarrow>
              (\<exists>q \<in> set days. outage_flag q \<and> 1 \<le> date p - date q \<and> date p - date q \<le> k)"
    proof
      assume "app_issue_flag p"
      then obtain d j where dj: "d \<in> set od" "1 \<le> j" "j \<le> k" "x = d + j"
        using pd apps by auto
      let ?q = "make_day wf pp od app d"
      have "?q \<in> set days" using dj(1) odr unfolding days dse by auto
      moreover have "outage_flag ?q" "date ?q = d" using dj(1) by (simp_all add: make_day_def Let_def)
      ultimately show "\<exists>q \<in> set days. outage_flag q \<and> 1 \<le> date p - date q \<and> date p - date q \<le> k"
        using dj pd by (intro bexI [of _ ?q]) auto
    next
      assume "\<exists>q \<in> set days. outage_flag q \<and> 1 \<le> date p - date q \<and> date p - date q \<le> k"
      then obtain q where q: "q \<in> set days" "outage_flag q" "1 \<le> date p - date q" "date p - date q \<le> k"
        by blast
      from q(1) obtain y where y: "q = make_day wf pp od app y" unfolding days by auto
      have "y \<in> set od" "date q = y" using q(2) y by (simp_all add: make_day_def Let_def)
      moreover have "x \<le> end_date" using x by simp
      ultimately have "x \<in> set app"
        unfolding apps using q(3,4) pd(1)
        by (intro CollectI exI [of _ y] exI [of _ "x - y"]) auto
      then show "app_issue_flag p" using pd by simp
    qed
  qed
  show ?thesis using dates flags unfolding k_def by blast
qed

theorem C7_app_issue_propagation_witness:
  "make_calendar first_outcome_library 738886 738889 example_calendar_config
       \<lparr> global_seed = 42, root = 0 \<rparr>
     = Inr [\<lparr> date = 738886, weekday = ''Mon'', is_weekend = False, weekday_factor = 1,
              outage_flag = True, app_issue_flag = False, premium_wait_peak = False \<rparr>,
            \<lparr> date = 738887, weekday = ''Tue'', is_weekend = False, weekday_factor = 1,
              outage_flag = False, app_issue_flag = True, premium_wait_peak = False \<rparr>,
            \<lparr> date = 738888, weekday = ''Wed'', is_weekend = False, weekday_factor = 1,
              outage_flag = False, app_issue_flag = True, premium_wait_peak = False \<rparr>,
            \<lparr> date = 738889, weekday = ''Thu'', is_weekend = False, weekday_factor = 1,
              outage_flag = False, app_issue_flag = False, premium_wait_peak = False \<rparr>]
   \<and> [738886..738889] = [738886, 738887, 738888, 738889 :: int]
   \<and> get_int example_calendar_config ''calendar.incidents.app_issue_after_outage_days'' 0 = 2"
proof -
  have dr: "daterange 738886 738889 = Inr [738886, 738887, 738888, 738889]"
    by (simp add: daterange.simps date_max_def)
  have ev: "make_calendar first_outcome_library 738886 738889 example_calendar_config
       \<lparr> global_seed = 42, root = 0 \<rparr>
     = Inr [\<lparr> date = 738886, weekday = ''Mon'', is_weekend = False, weekday_factor = 1,
              outage_flag = True, app_issue_flag = False, premium_wait_peak = False \<rparr>,
            \<lparr> date = 738887, weekday = ''Tue'', is_weekend = False, weekday_factor = 1,
              outage_flag = False, app_issue_flag = True, premium_wait_peak = False \<rparr>,
            \<lparr> date = 738888, weekday = ''Wed'', is_weekend = False, weekday_factor = 1,
              outage_flag = False, app_issue_flag = True, premium_wait_peak = False \<rparr>,
            \<lparr> date = 738889, weekday = ''Thu'', is_weekend = False, weekday_factor = 1,
              outage_flag = False, app_issue_flag = False, premium_wait_peak = False \<rparr>]"
    by (simp add: make_calendar_def select_outage_days_def dr example_calendar_config_def
          get_int_def get_table_def get_strings_def seed_for_def to_bytes8_def
          first_outcome_library_def date_weekday_def Let_def make_day_def date_add_def
          date_max_def upto_rec1 WEEKDAYS_def dict_get_def)
  show ?thesis
    using C7_app_issue_propagation [OF ev] ev
    by (simp add: get_int_def example_calendar_config_def)
qed

section \<open>Bounded fields\<close>

lemma round_half_even_ge: "of_int n \<le> x \<Longrightarrow> n \<le> round_half_even x"
proof -
  assume "of_int n \<le> x"
  then have "n \<le> \<lfloor>x\<rfloor>" by (simp add: le_floor_iff)
  then show ?thesis by (simp add: round_half_even_def Let_def)
qed

lemma round_half_even_le: "x \<le> of_int n \<Longrightarrow> round_half_even x \<le> n"
proof (cases "x = of_int n")
  case True
  then show ?thesis by (simp add: round_half_even_def Let_def)
next
  case False
  assume "x \<le> of_int n"
  with False have "x < of_int n" by simp
  then have "\<lfloor>x\<rfloor> < n" by (simp add: floor_less_iff)
  then show ?thesis by (simp add: round_half_even_def Let_def)
qed

lemma py_round_ge:
  assumes "of_int a \<le> x * 10 ^ nd"
  shows "of_int a / 10 ^ nd \<le> py_round x nd"
  using round_half_even_ge [OF assms] by (simp add: py_round_def divide_right_mono)

lemma py_round_le:
  assumes "x * 10 ^ nd \<le> of_int b"
  shows "py_round x nd \<le> of_int b / 10 ^ nd"
  using round_half_even_le [OF assms] by (simp add: py_round_def divide_right_mono)

lemma py_round_nonneg: "0 \<le> x \<Longrightarrow> 0 \<le> py_round x nd"
  using py_round_ge [of 0 x nd] by simp

lemma ebind_InrE:
  assumes "ebind m f = Inr y"
  obtains x where "m = Inr x" and "f x = Inr y"
  using assms by (cases m) (auto simp: ebind_def)

lemma trunc_normal_ge:
  "trunc_normal L r m s lo = Inr (v, r') \<Longrightarrow> lo \<le> v"
  by (auto simp: trunc_normal_def ebind_def np_normal_def split: if_splits prod.splits)


lemma corrected_score_bounds:
  "0 \<le> corrected_score ctx fcr awt cfg s0"
  "corrected_score ctx fcr awt cfg s0 \<le> max 0 (get_int cfg ''nps.corrections.happy_cap'' 10)"
  by (simp_all add: corrected_score_def Let_def)

lemma sentiment_of_bounds: "- 1 \<le> sentiment_of s n" "sentiment_of s n \<le> 1"
  by (simp_all add: sentiment_of_def)

lemma py_round_unit_interval:
  assumes "- 1 \<le> x" and "x \<le> 1"
  shows "- 1 \<le> py_round x 3" and "py_round x 3 \<le> 1"
proof -
  have "of_int (- 1000) \<le> x * 10 ^ 3" using assms by simp
  then have "of_int (- 1000) / 10 ^ 3 \<le> py_round x 3" by (rule py_round_ge)
  then show "- 1 \<le> py_round x 3" by simp
  have "x * 10 ^ 3 \<le> of_int 1000" using assms by simp
  then have "py_round x 3 \<le> of_int 1000 / 10 ^ 3" by (rule py_round_le)
  then show "py_round x 3 \<le> 1" by simp
qed

lemma py_round_percent:
  assumes "0 \<le> x" and "x \<le> 100"
  shows "0 \<le> py_round x 1" and "py_round x 1 \<le> 100"
proof -
  show "0 \<le> py_round x 1" using assms(1) by (rule py_round_nonneg)
  have "x * 10 ^ 1 \<le> of_int 1000" using assms by simp
  then have "py_round x 1 \<le> of_int 1000 / 10 ^ 1" by (rule py_round_le)
  then show "py_round x 1 \<le> 100" by simp
qed

lemma ebind_pair_InrD:
  "ebind m (\<lambda>(a, b). f a b) = Inr y \<Longrightarrow> \<exists>a b. m = Inr (a, b) \<and> f a b = Inr y"
  by (cases m) (auto simp: ebind_def)

lemma sample_nps_bounds:
  assumes "sample_nps L ctx fcr awt cfg = Inr (out, ctx')"
  shows "0 \<le> NPS_score out
       \<and> NPS_score out \<le> max 0 (get_int cfg ''nps.corrections.happy_cap'' 10)
       \<and> - 1 \<le> sentiment_score out \<and> sentiment_score out \<le> 1"
  using assms unfolding sample_nps_def
  by (auto dest!: ebind_pair_InrD
        intro!: corrected_score_bounds py_round_unit_interval sentiment_of_bounds)

lemma sample_compliance_bounds:
  assumes "sample_compliance L ctx cfg = Inr (cres, ctx')"
  shows "0 \<le> script_adherence cres \<and> script_adherence cres \<le> 100"
  using assms unfolding sample_compliance_def
  by (auto dest!: ebind_pair_InrD split: prod.splits intro!: py_round_percent
        simp del: One_nat_def)

lemma sample_ops_metrics_bounds:
  assumes "sample_ops_metrics L ctx cfg = Inr (opm, ctx')"
  shows "0 \<le> Silence_ratio opm"
  using assms unfolding sample_ops_metrics_def
  apply (auto dest!: ebind_pair_InrD split: prod.splits intro!: py_round_nonneg)
  apply (rule trunc_normal_ge, assumption)
  done

text \<open>
  C6 (as the code has it).  Whenever the samplers return, for every configuration, context
  and generator: \<^verbatim>\<open>NPS_score\<close> is an integer between 0 and the configured
  \<^verbatim>\<open>happy_cap\<close> (default 10), so within \<open>[0, 10]\<close> whenever the cap is at most 10;
  \<^verbatim>\<open>sentiment_score\<close> is within \<open>[-1, 1]\<close>; \<^verbatim>\<open>script_adherence\<close> is within
  \<open>[0, 100]\<close>; \<^verbatim>\<open>Silence_ratio\<close> is at least 0.
\<close>

theorem C6_bounded_fields:
  "(sample_nps L ctx fcr awt cfg = Inr (nps, ctx1) \<longrightarrow>
       0 \<le> NPS_score nps
     \<and> NPS_score nps \<le> max 0 (get_int cfg ''nps.corrections.happy_cap'' 10)
     \<and> (get_int cfg ''nps.corrections.happy_cap'' 10 \<le> 10 \<longrightarrow> NPS_score nps \<le> 10)
     \<and> - 1 \<le> sentiment_score nps \<and> sentiment_score nps \<le> 1)
   \<and> (sample_ops_metrics L ctx cfg = Inr (opm, ctx2) \<longrightarrow> 0 \<le> Silence_ratio opm)
   \<and> (sample_compliance L ctx cfg = Inr (cres, ctx3) \<longrightarrow>
         0 \<le> script_adherence cres \<and> script_adherence cres \<le> 100)"
proof -
  have a: "sample_nps L ctx fcr awt cfg = Inr (nps, ctx1) \<longrightarrow>
       0 \<le> NPS_score nps
     \<and> NPS_score nps \<le> max 0 (get_int cfg ''nps.corrections.happy_cap'' 10)
     \<and> (get_int cfg ''nps.corrections.happy_cap'' 10 \<le> 10 \<longrightarrow> NPS_score nps \<le> 10)
     \<and> - 1 \<le> sentiment_score nps \<and> sentiment_score nps \<le> 1"
    using sample_nps_bounds [of L ctx fcr awt cfg nps ctx1] by auto
  have b: "sample_ops_metrics L ctx cfg = Inr (opm, ctx2) \<longrightarrow> 0 \<le> Silence_ratio opm"
    using sample_ops_metrics_bounds [of L ctx cfg opm ctx2] by blast
  have c: "sample_compliance L ctx cfg = Inr (cres, ctx3) \<longrightarrow>
         0 \<le> script_adherence cres \<and> script_adherence cres \<le> 100"
    using sample_compliance_bounds [of L ctx cfg cres ctx3] by blast
  show ?thesis using a b c by blast
qed


theorem C6_bounded_fields_witness:
  "sample_nps first_outcome_library (example_context ''voice'') True 0 empty_config
     = Inr (\<lparr> NPS_score = 6, sentiment_score = 1 / 5 \<rparr>,
            (example_context ''voice'')\<lparr>call_rng := 2\<rparr>)
   \<and> sample_ops_metrics first_outcome_library (example_context ''voice'') empty_config
     = Inr (\<lparr> AWT = 90, Hold_time = 45, Transfers_count = 0, Silence_ratio = 9,
              Interruptions_count = 1, FCR = True \<rparr>,
            (example_context ''voice'')\<lparr>call_rng := 6\<rparr>)
   \<and> sample_compliance first_outcome_library (example_context ''voice'') empty_config
     = Inr (\<lparr> compliance_flags = [], kb_article_used = True, language_switch = True,
              pii_disclosure_flag = True, script_adherence = 86 \<rparr>,
            (example_context ''voice'')\<lparr>call_rng := 4\<rparr>)
   \<and> get_int empty_config ''nps.corrections.happy_cap'' 10 = 10"
proof -
  have n: "sample_nps first_outcome_library (example_context ''voice'') True 0 empty_config
     = Inr (\<lparr> NPS_score = 6, sentiment_score = 1 / 5 \<rparr>,
            (example_context ''voice'')\<lparr>call_rng := 2\<rparr>)"
    by (simp add: sample_nps_def nps_base_weights_def corrected_score_def sentiment_of_def
          empty_config_def get_int_table_def get_int_def dict_keys_def
          dict_get_def clip_normalise_def np_choice_def np_normal_def ebind_def choice_atol_def
          first_outcome_library_def example_context_def Let_def py_round_def round_half_even_def)
  have o: "sample_ops_metrics first_outcome_library (example_context ''voice'') empty_config
     = Inr (\<lparr> AWT = 90, Hold_time = 45, Transfers_count = 0, Silence_ratio = 9,
              Interruptions_count = 1, FCR = True \<rparr>,
            (example_context ''voice'')\<lparr>call_rng := 6\<rparr>)"
    by (simp add: sample_ops_metrics_def transfer_probs_def awt_with_deltas_def
          fcr_probability_def trunc_normal_def
          empty_config_def get_int_table_def get_real_def dict_keys_def
          dict_get_def clip_normalise_def np_choice_def np_normal_def ebind_def choice_atol_def
          first_outcome_library_def example_context_def Let_def py_round_def round_half_even_def)
  have c: "sample_compliance first_outcome_library (example_context ''voice'') empty_config
     = Inr (\<lparr> compliance_flags = [], kb_article_used = True, language_switch = True,
              pii_disclosure_flag = True, script_adherence = 86 \<rparr>,
            (example_context ''voice'')\<lparr>call_rng := 4\<rparr>)"
    by (simp add: sample_compliance_def adjusted_pass_rates_def
          empty_config_def get_table_def get_real_def
          np_normal_def ebind_def
          first_outcome_library_def example_context_def Let_def py_round_def round_half_even_def)
  show ?thesis
    using C6_bounded_fields [of first_outcome_library "example_context ''voice''" True 0
        empty_config "\<lparr> NPS_score = 6, sentiment_score = 1 / 5 \<rparr>"
        "(example_context ''voice'')\<lparr>call_rng := 2\<rparr>"
        "\<lparr> AWT = 90, Hold_time = 45, Transfers_count = 0, Silence_ratio = 9,
              Interruptions_count = 1, FCR = True \<rparr>"
        "(example_context ''voice'')\<lparr>call_rng := 6\<rparr>"
        "\<lparr> compliance_flags = [], kb_article_used = True, language_switch = True,
              pii_disclosure_flag = True, script_adherence = 86 \<rparr>"
        "(example_context ''voice'')\<lparr>call_rng := 4\<rparr>"] n o c
    by (simp add: get_int_def empty_config_def)
qed

text \<open>
  C6 as the spec states it, for every configuration, fails for \<^verbatim>\<open>NPS_score\<close>: the cap is
  read from the configuration.  With \<^verbatim>\<open>happy_cap\<close> 20 and the single base score 15 the
  sampled \<^verbatim>\<open>NPS_score\<close> is 15, above 10.
\<close>

theorem C6_configured_cap_counterexample:
  "sample_nps first_outcome_library (example_context ''voice'') True 0 high_cap_config
     = Inr (\<lparr> NPS_score = 15, sentiment_score = 1 \<rparr>,
            (example_context ''voice'')\<lparr>call_rng := 2\<rparr>)
   \<and> \<not> (15 :: int) \<le> 10"
  by (simp add: sample_nps_def nps_base_weights_def corrected_score_def sentiment_of_def
        high_cap_config_def get_int_table_def get_int_def dict_keys_def
        dict_get_def clip_normalise_def np_choice_def np_normal_def ebind_def choice_atol_def
        first_outcome_library_def example_context_def Let_def py_round_def round_half_even_def)

end
